theory Spec2Isabelle
  imports Main "HOL-Library.Word"
begin

unbundle bit_operations_syntax

section \<open>The enumerations of simsimd.h\<close>

text \<open>
  \<^verbatim>\<open>simsimd_metric_kind_t\<close> (lines 76-106). The enumerators that share a character
  code are one value in C; they are one constructor here and the aliases abbreviate it.
\<close>

datatype simsimd_metric_kind_t =
    simsimd_metric_unknown_k
  | simsimd_metric_dot_k
  | simsimd_metric_vdot_k
  | simsimd_metric_cos_k
  | simsimd_metric_l2sq_k
  | simsimd_metric_hamming_k
  | simsimd_metric_jaccard_k
  | simsimd_metric_kl_k
  | simsimd_metric_js_k

abbreviation (input) simsimd_metric_inner_k :: simsimd_metric_kind_t where
  "simsimd_metric_inner_k \<equiv> simsimd_metric_dot_k"

abbreviation (input) simsimd_metric_cosine_k :: simsimd_metric_kind_t where
  "simsimd_metric_cosine_k \<equiv> simsimd_metric_cos_k"

abbreviation (input) simsimd_metric_angular_k :: simsimd_metric_kind_t where
  "simsimd_metric_angular_k \<equiv> simsimd_metric_cos_k"

abbreviation (input) simsimd_metric_sqeuclidean_k :: simsimd_metric_kind_t where
  "simsimd_metric_sqeuclidean_k \<equiv> simsimd_metric_l2sq_k"

abbreviation (input) simsimd_metric_manhattan_k :: simsimd_metric_kind_t where
  "simsimd_metric_manhattan_k \<equiv> simsimd_metric_hamming_k"

abbreviation (input) simsimd_metric_tanimoto_k :: simsimd_metric_kind_t where
  "simsimd_metric_tanimoto_k \<equiv> simsimd_metric_jaccard_k"

abbreviation (input) simsimd_metric_kullback_leibler_k :: simsimd_metric_kind_t where
  "simsimd_metric_kullback_leibler_k \<equiv> simsimd_metric_kl_k"

abbreviation (input) simsimd_metric_jensen_shannon_k :: simsimd_metric_kind_t where
  "simsimd_metric_jensen_shannon_k \<equiv> simsimd_metric_js_k"

text \<open>
  \<^verbatim>\<open>simsimd_capability_t\<close> (lines 111-124): an \<^verbatim>\<open>int\<close>-sized enumeration used as a
  bitmask, so a 32-bit word. A single tier is a mask with one bit.
\<close>

type_synonym simsimd_capability_t = "32 word"

definition simsimd_cap_serial_k :: simsimd_capability_t where
  "simsimd_cap_serial_k = 1"

definition simsimd_cap_any_k :: simsimd_capability_t where
  "simsimd_cap_any_k = 0x7FFFFFFF"

definition simsimd_cap_neon_k :: simsimd_capability_t where
  "simsimd_cap_neon_k = push_bit 10 1"

definition simsimd_cap_sve_k :: simsimd_capability_t where
  "simsimd_cap_sve_k = push_bit 11 1"

definition simsimd_cap_sve2_k :: simsimd_capability_t where
  "simsimd_cap_sve2_k = push_bit 12 1"

definition simsimd_cap_haswell_k :: simsimd_capability_t where
  "simsimd_cap_haswell_k = push_bit 20 1"

definition simsimd_cap_skylake_k :: simsimd_capability_t where
  "simsimd_cap_skylake_k = push_bit 21 1"

definition simsimd_cap_ice_k :: simsimd_capability_t where
  "simsimd_cap_ice_k = push_bit 22 1"

definition simsimd_cap_sapphire_k :: simsimd_capability_t where
  "simsimd_cap_sapphire_k = push_bit 23 1"

text \<open>\<^verbatim>\<open>simsimd_datatype_t\<close> (lines 133-144).\<close>

datatype simsimd_datatype_t =
    simsimd_datatype_unknown_k
  | simsimd_datatype_f64_k
  | simsimd_datatype_f32_k
  | simsimd_datatype_f16_k
  | simsimd_datatype_i8_k
  | simsimd_datatype_b8_k
  | simsimd_datatype_f64c_k
  | simsimd_datatype_f32c_k
  | simsimd_datatype_f16c_k
  | simsimd_datatype_i8c_k

text \<open>
  \<^verbatim>\<open>simsimd_metric_punned_t\<close> (line 154) is a pointer to a kernel. The kernels are
  defined in the included headers; the dispatcher only takes their addresses, so a
  pointer is the name of the function it points to, and \<open>None\<close> is the null pointer.
\<close>

type_synonym simsimd_metric_punned_t = "string option"

text \<open>The two values \<^verbatim>\<open>simsimd_find_metric_punned\<close> leaves in \<^verbatim>\<open>*m\<close> and \<^verbatim>\<open>*c\<close>.\<close>

type_synonym resolved = "simsimd_metric_punned_t \<times> simsimd_capability_t"

section \<open>What the preprocessor and the machine decide\<close>

text \<open>
  The \<^verbatim>\<open>SIMSIMD_TARGET_*\<close> macros come from the included headers and the compiler
  flags, \<^verbatim>\<open>__linux__\<close> from the compiler, \<^verbatim>\<open>HWCAP_SVE\<close> and \<^verbatim>\<open>HWCAP2_SVE2\<close> from
  the system headers: all are parameters of the build.
\<close>

record build =
  SIMSIMD_TARGET_X86 :: bool
  SIMSIMD_TARGET_ARM :: bool
  SIMSIMD_TARGET_NEON :: bool
  SIMSIMD_TARGET_SVE :: bool
  SIMSIMD_TARGET_HASWELL :: bool
  SIMSIMD_TARGET_SKYLAKE :: bool
  SIMSIMD_TARGET_ICE :: bool
  SIMSIMD_TARGET_SAPPHIRE :: bool
  linux :: bool
  HWCAP_SVE :: "64 word"
  HWCAP2_SVE2 :: "64 word"

text \<open>
  One \<^verbatim>\<open>cpuid\<close> call fills four registers (\<^verbatim>\<open>union four_registers_t\<close>, lines 166-171);
  \<^verbatim>\<open>getauxval\<close> returns an \<^verbatim>\<open>unsigned long\<close>.
\<close>

record four_registers_t =
  eax :: "32 word"
  ebx :: "32 word"
  ecx :: "32 word"
  edx :: "32 word"

record machine =
  cpuid_1_0 :: four_registers_t
  cpuid_7_0 :: four_registers_t
  getauxval_AT_HWCAP :: "64 word"
  getauxval_AT_HWCAP2 :: "64 word"

section \<open>simsimd_capabilities\<close>

text \<open>
  Lines 161-247. Each \<^verbatim>\<open>supports_*\<close> is the 0 or 1 of a comparison; the result
  multiplies each tier's bit by it. The x86 section returns before the Arm section, and
  the Arm section before the last line.
\<close>

definition capabilities_x86 :: "machine \<Rightarrow> simsimd_capability_t" where
  "capabilities_x86 hw =
    (let info1 = cpuid_1_0 hw; info7 = cpuid_7_0 hw;
         supports_avx2 = (ebx info7 AND 0x00000020 \<noteq> 0);
         supports_f16c = (ecx info1 AND 0x20000000 \<noteq> 0);
         supports_fma = (ecx info1 AND 0x00001000 \<noteq> 0);
         supports_avx512f = (ebx info7 AND 0x00010000 \<noteq> 0);
         supports_avx512ifma = (ebx info7 AND 0x00200000 \<noteq> 0);
         supports_avx512fp16 = (edx info7 AND 0x00800000 \<noteq> 0);
         supports_avx512vpopcntdq = (ecx info1 AND 0x00004000 \<noteq> 0);
         supports_avx512vbmi2 = (ecx info1 AND 0x00000040 \<noteq> 0);
         supports_avx512vnni = (ecx info1 AND 0x00000800 \<noteq> 0);
         supports_avx512bitalg = (ecx info1 AND 0x00001000 \<noteq> 0);
         supports_haswell = (supports_avx2 \<and> supports_f16c \<and> supports_fma);
         supports_skylake = supports_avx512f;
         supports_ice = (supports_avx512vnni \<and> supports_avx512ifma \<and> supports_avx512bitalg \<and>
                         supports_avx512vbmi2 \<and> supports_avx512vpopcntdq);
         supports_sapphire = supports_avx512fp16
     in (simsimd_cap_haswell_k * of_bool supports_haswell) OR
        (simsimd_cap_skylake_k * of_bool supports_skylake) OR
        (simsimd_cap_ice_k * of_bool supports_ice) OR
        (simsimd_cap_sapphire_k * of_bool supports_sapphire) OR
        simsimd_cap_serial_k)"

definition capabilities_arm :: "build \<Rightarrow> machine \<Rightarrow> simsimd_capability_t" where
  "capabilities_arm cfg hw =
    (let supports_neon = True;
         hwcap = getauxval_AT_HWCAP hw;
         hwcap2 = getauxval_AT_HWCAP2 hw;
         supports_sve = (if linux cfg then hwcap AND HWCAP_SVE cfg \<noteq> 0 else False);
         supports_sve2 = (if linux cfg then hwcap2 AND HWCAP2_SVE2 cfg \<noteq> 0 else False)
     in (simsimd_cap_neon_k * of_bool supports_neon) OR
        (simsimd_cap_sve_k * of_bool supports_sve) OR
        (simsimd_cap_sve2_k * of_bool supports_sve2) OR
        simsimd_cap_serial_k)"

definition simsimd_capabilities :: "build \<Rightarrow> machine \<Rightarrow> simsimd_capability_t" where
  "simsimd_capabilities cfg hw =
    (if SIMSIMD_TARGET_X86 cfg then capabilities_x86 hw
     else if SIMSIMD_TARGET_ARM cfg then capabilities_arm cfg hw
     else simsimd_cap_serial_k)"

section \<open>simsimd_find_metric_punned\<close>

text \<open>
  Lines 265-603. Under each \<^verbatim>\<open>case\<close> of the datatype stands a sequence of blocks
  \<^verbatim>\<open>if (viable & cap) switch (kind) { ... }\<close>. First the inner switches, one function
  each, named by datatype and tier: a \<^verbatim>\<open>case\<close> line that assigns \<^verbatim>\<open>*m\<close> and \<^verbatim>\<open>*c\<close>
  and returns gives \<open>Some\<close> of the two values, \<^verbatim>\<open>default: break\<close> gives \<open>None\<close>.
\<close>

fun f64_skylake :: "simsimd_metric_kind_t \<Rightarrow> resolved option" where
  "f64_skylake simsimd_metric_dot_k = Some (Some ''simsimd_dot_f64_skylake'', simsimd_cap_skylake_k)"
| "f64_skylake simsimd_metric_cos_k = Some (Some ''simsimd_cos_f64_skylake'', simsimd_cap_skylake_k)"
| "f64_skylake simsimd_metric_l2sq_k = Some (Some ''simsimd_l2sq_f64_skylake'', simsimd_cap_skylake_k)"
| "f64_skylake _ = None"

fun f64_serial :: "simsimd_metric_kind_t \<Rightarrow> resolved option" where
  "f64_serial simsimd_metric_dot_k = Some (Some ''simsimd_dot_f64_serial'', simsimd_cap_serial_k)"
| "f64_serial simsimd_metric_cos_k = Some (Some ''simsimd_cos_f64_serial'', simsimd_cap_serial_k)"
| "f64_serial simsimd_metric_l2sq_k = Some (Some ''simsimd_l2sq_f64_serial'', simsimd_cap_serial_k)"
| "f64_serial simsimd_metric_js_k = Some (Some ''simsimd_js_f64_serial'', simsimd_cap_serial_k)"
| "f64_serial simsimd_metric_kl_k = Some (Some ''simsimd_kl_f64_serial'', simsimd_cap_serial_k)"
| "f64_serial _ = None"

fun f32_neon :: "simsimd_metric_kind_t \<Rightarrow> resolved option" where
  "f32_neon simsimd_metric_dot_k = Some (Some ''simsimd_dot_f32_neon'', simsimd_cap_neon_k)"
| "f32_neon simsimd_metric_cos_k = Some (Some ''simsimd_cos_f32_neon'', simsimd_cap_neon_k)"
| "f32_neon simsimd_metric_l2sq_k = Some (Some ''simsimd_l2sq_f32_neon'', simsimd_cap_neon_k)"
| "f32_neon simsimd_metric_js_k = Some (Some ''simsimd_js_f32_neon'', simsimd_cap_neon_k)"
| "f32_neon simsimd_metric_kl_k = Some (Some ''simsimd_kl_f32_neon'', simsimd_cap_neon_k)"
| "f32_neon _ = None"

fun f32_skylake :: "simsimd_metric_kind_t \<Rightarrow> resolved option" where
  "f32_skylake simsimd_metric_dot_k = Some (Some ''simsimd_dot_f32_skylake'', simsimd_cap_skylake_k)"
| "f32_skylake simsimd_metric_cos_k = Some (Some ''simsimd_cos_f32_skylake'', simsimd_cap_skylake_k)"
| "f32_skylake simsimd_metric_l2sq_k = Some (Some ''simsimd_l2sq_f32_skylake'', simsimd_cap_skylake_k)"
| "f32_skylake simsimd_metric_js_k = Some (Some ''simsimd_js_f32_skylake'', simsimd_cap_skylake_k)"
| "f32_skylake simsimd_metric_kl_k = Some (Some ''simsimd_kl_f32_skylake'', simsimd_cap_skylake_k)"
| "f32_skylake _ = None"

fun f32_serial :: "simsimd_metric_kind_t \<Rightarrow> resolved option" where
  "f32_serial simsimd_metric_dot_k = Some (Some ''simsimd_dot_f32_serial'', simsimd_cap_serial_k)"
| "f32_serial simsimd_metric_cos_k = Some (Some ''simsimd_cos_f32_serial'', simsimd_cap_serial_k)"
| "f32_serial simsimd_metric_l2sq_k = Some (Some ''simsimd_l2sq_f32_serial'', simsimd_cap_serial_k)"
| "f32_serial simsimd_metric_js_k = Some (Some ''simsimd_js_f32_serial'', simsimd_cap_serial_k)"
| "f32_serial simsimd_metric_kl_k = Some (Some ''simsimd_kl_f32_serial'', simsimd_cap_serial_k)"
| "f32_serial _ = None"

fun f16_sve :: "simsimd_metric_kind_t \<Rightarrow> resolved option" where
  "f16_sve simsimd_metric_dot_k = Some (Some ''simsimd_dot_f16_sve'', simsimd_cap_sve_k)"
| "f16_sve simsimd_metric_cos_k = Some (Some ''simsimd_cos_f16_sve'', simsimd_cap_sve_k)"
| "f16_sve simsimd_metric_l2sq_k = Some (Some ''simsimd_l2sq_f16_sve'', simsimd_cap_sve_k)"
| "f16_sve _ = None"

fun f16_neon :: "simsimd_metric_kind_t \<Rightarrow> resolved option" where
  "f16_neon simsimd_metric_dot_k = Some (Some ''simsimd_dot_f16_neon'', simsimd_cap_neon_k)"
| "f16_neon simsimd_metric_cos_k = Some (Some ''simsimd_cos_f16_neon'', simsimd_cap_neon_k)"
| "f16_neon simsimd_metric_l2sq_k = Some (Some ''simsimd_l2sq_f16_neon'', simsimd_cap_neon_k)"
| "f16_neon simsimd_metric_js_k = Some (Some ''simsimd_js_f16_neon'', simsimd_cap_neon_k)"
| "f16_neon simsimd_metric_kl_k = Some (Some ''simsimd_kl_f16_neon'', simsimd_cap_neon_k)"
| "f16_neon _ = None"

fun f16_sapphire :: "simsimd_metric_kind_t \<Rightarrow> resolved option" where
  "f16_sapphire simsimd_metric_dot_k = Some (Some ''simsimd_dot_f16_sapphire'', simsimd_cap_sapphire_k)"
| "f16_sapphire simsimd_metric_cos_k = Some (Some ''simsimd_cos_f16_sapphire'', simsimd_cap_sapphire_k)"
| "f16_sapphire simsimd_metric_l2sq_k = Some (Some ''simsimd_l2sq_f16_sapphire'', simsimd_cap_sapphire_k)"
| "f16_sapphire simsimd_metric_js_k = Some (Some ''simsimd_js_f16_sapphire'', simsimd_cap_sapphire_k)"
| "f16_sapphire simsimd_metric_kl_k = Some (Some ''simsimd_kl_f16_sapphire'', simsimd_cap_sapphire_k)"
| "f16_sapphire _ = None"

fun f16_haswell :: "simsimd_metric_kind_t \<Rightarrow> resolved option" where
  "f16_haswell simsimd_metric_dot_k = Some (Some ''simsimd_dot_f16_haswell'', simsimd_cap_haswell_k)"
| "f16_haswell simsimd_metric_cos_k = Some (Some ''simsimd_cos_f16_haswell'', simsimd_cap_haswell_k)"
| "f16_haswell simsimd_metric_l2sq_k = Some (Some ''simsimd_l2sq_f16_haswell'', simsimd_cap_haswell_k)"
| "f16_haswell simsimd_metric_js_k = Some (Some ''simsimd_js_f16_haswell'', simsimd_cap_haswell_k)"
| "f16_haswell simsimd_metric_kl_k = Some (Some ''simsimd_kl_f16_haswell'', simsimd_cap_haswell_k)"
| "f16_haswell _ = None"

fun f16_serial :: "simsimd_metric_kind_t \<Rightarrow> resolved option" where
  "f16_serial simsimd_metric_dot_k = Some (Some ''simsimd_dot_f16_serial'', simsimd_cap_serial_k)"
| "f16_serial simsimd_metric_cos_k = Some (Some ''simsimd_cos_f16_serial'', simsimd_cap_serial_k)"
| "f16_serial simsimd_metric_l2sq_k = Some (Some ''simsimd_l2sq_f16_serial'', simsimd_cap_serial_k)"
| "f16_serial simsimd_metric_js_k = Some (Some ''simsimd_js_f16_serial'', simsimd_cap_serial_k)"
| "f16_serial simsimd_metric_kl_k = Some (Some ''simsimd_kl_f16_serial'', simsimd_cap_serial_k)"
| "f16_serial _ = None"

fun i8_neon :: "simsimd_metric_kind_t \<Rightarrow> resolved option" where
  "i8_neon simsimd_metric_dot_k = Some (Some ''simsimd_cos_i8_neon'', simsimd_cap_neon_k)"
| "i8_neon simsimd_metric_cos_k = Some (Some ''simsimd_cos_i8_neon'', simsimd_cap_neon_k)"
| "i8_neon simsimd_metric_l2sq_k = Some (Some ''simsimd_l2sq_i8_neon'', simsimd_cap_neon_k)"
| "i8_neon _ = None"

fun i8_ice :: "simsimd_metric_kind_t \<Rightarrow> resolved option" where
  "i8_ice simsimd_metric_dot_k = Some (Some ''simsimd_cos_i8_ice'', simsimd_cap_ice_k)"
| "i8_ice simsimd_metric_cos_k = Some (Some ''simsimd_cos_i8_ice'', simsimd_cap_ice_k)"
| "i8_ice simsimd_metric_l2sq_k = Some (Some ''simsimd_l2sq_i8_ice'', simsimd_cap_ice_k)"
| "i8_ice _ = None"

fun i8_haswell :: "simsimd_metric_kind_t \<Rightarrow> resolved option" where
  "i8_haswell simsimd_metric_dot_k = Some (Some ''simsimd_cos_i8_haswell'', simsimd_cap_haswell_k)"
| "i8_haswell simsimd_metric_cos_k = Some (Some ''simsimd_cos_i8_haswell'', simsimd_cap_haswell_k)"
| "i8_haswell simsimd_metric_l2sq_k = Some (Some ''simsimd_l2sq_i8_haswell'', simsimd_cap_haswell_k)"
| "i8_haswell _ = None"

fun i8_serial :: "simsimd_metric_kind_t \<Rightarrow> resolved option" where
  "i8_serial simsimd_metric_dot_k = Some (Some ''simsimd_cos_i8_serial'', simsimd_cap_serial_k)"
| "i8_serial simsimd_metric_cos_k = Some (Some ''simsimd_cos_i8_serial'', simsimd_cap_serial_k)"
| "i8_serial simsimd_metric_l2sq_k = Some (Some ''simsimd_l2sq_i8_serial'', simsimd_cap_serial_k)"
| "i8_serial _ = None"

fun b8_sve :: "simsimd_metric_kind_t \<Rightarrow> resolved option" where
  "b8_sve simsimd_metric_hamming_k = Some (Some ''simsimd_hamming_b8_sve'', simsimd_cap_sve_k)"
| "b8_sve simsimd_metric_jaccard_k = Some (Some ''simsimd_jaccard_b8_sve'', simsimd_cap_sve_k)"
| "b8_sve _ = None"

fun b8_neon :: "simsimd_metric_kind_t \<Rightarrow> resolved option" where
  "b8_neon simsimd_metric_hamming_k = Some (Some ''simsimd_hamming_b8_neon'', simsimd_cap_neon_k)"
| "b8_neon simsimd_metric_jaccard_k = Some (Some ''simsimd_jaccard_b8_neon'', simsimd_cap_neon_k)"
| "b8_neon _ = None"

fun b8_ice :: "simsimd_metric_kind_t \<Rightarrow> resolved option" where
  "b8_ice simsimd_metric_hamming_k = Some (Some ''simsimd_hamming_b8_ice'', simsimd_cap_ice_k)"
| "b8_ice simsimd_metric_jaccard_k = Some (Some ''simsimd_jaccard_b8_ice'', simsimd_cap_ice_k)"
| "b8_ice _ = None"

fun b8_haswell :: "simsimd_metric_kind_t \<Rightarrow> resolved option" where
  "b8_haswell simsimd_metric_hamming_k = Some (Some ''simsimd_hamming_b8_haswell'', simsimd_cap_haswell_k)"
| "b8_haswell simsimd_metric_jaccard_k = Some (Some ''simsimd_jaccard_b8_haswell'', simsimd_cap_haswell_k)"
| "b8_haswell _ = None"

fun b8_serial :: "simsimd_metric_kind_t \<Rightarrow> resolved option" where
  "b8_serial simsimd_metric_hamming_k = Some (Some ''simsimd_hamming_b8_serial'', simsimd_cap_serial_k)"
| "b8_serial simsimd_metric_jaccard_k = Some (Some ''simsimd_jaccard_b8_serial'', simsimd_cap_serial_k)"
| "b8_serial _ = None"

fun f32c_sve :: "simsimd_metric_kind_t \<Rightarrow> resolved option" where
  "f32c_sve simsimd_metric_dot_k = Some (Some ''simsimd_dot_f32c_sve'', simsimd_cap_sve_k)"
| "f32c_sve simsimd_metric_vdot_k = Some (Some ''simsimd_vdot_f32c_sve'', simsimd_cap_sve_k)"
| "f32c_sve _ = None"

fun f32c_neon :: "simsimd_metric_kind_t \<Rightarrow> resolved option" where
  "f32c_neon simsimd_metric_dot_k = Some (Some ''simsimd_dot_f32c_neon'', simsimd_cap_neon_k)"
| "f32c_neon simsimd_metric_vdot_k = Some (Some ''simsimd_vdot_f32c_neon'', simsimd_cap_neon_k)"
| "f32c_neon _ = None"

fun f32c_haswell :: "simsimd_metric_kind_t \<Rightarrow> resolved option" where
  "f32c_haswell simsimd_metric_dot_k = Some (Some ''simsimd_dot_f32c_haswell'', simsimd_cap_haswell_k)"
| "f32c_haswell simsimd_metric_vdot_k = Some (Some ''simsimd_vdot_f32c_haswell'', simsimd_cap_haswell_k)"
| "f32c_haswell _ = None"

fun f32c_skylake :: "simsimd_metric_kind_t \<Rightarrow> resolved option" where
  "f32c_skylake simsimd_metric_dot_k = Some (Some ''simsimd_dot_f32c_skylake'', simsimd_cap_skylake_k)"
| "f32c_skylake simsimd_metric_vdot_k = Some (Some ''simsimd_vdot_f32c_skylake'', simsimd_cap_skylake_k)"
| "f32c_skylake _ = None"

fun f32c_serial :: "simsimd_metric_kind_t \<Rightarrow> resolved option" where
  "f32c_serial simsimd_metric_dot_k = Some (Some ''simsimd_dot_f32c_serial'', simsimd_cap_serial_k)"
| "f32c_serial simsimd_metric_vdot_k = Some (Some ''simsimd_vdot_f32c_serial'', simsimd_cap_serial_k)"
| "f32c_serial _ = None"

fun f64c_sve :: "simsimd_metric_kind_t \<Rightarrow> resolved option" where
  "f64c_sve simsimd_metric_dot_k = Some (Some ''simsimd_dot_f64c_sve'', simsimd_cap_sve_k)"
| "f64c_sve simsimd_metric_vdot_k = Some (Some ''simsimd_vdot_f64c_sve'', simsimd_cap_sve_k)"
| "f64c_sve _ = None"

fun f64c_skylake :: "simsimd_metric_kind_t \<Rightarrow> resolved option" where
  "f64c_skylake simsimd_metric_dot_k = Some (Some ''simsimd_dot_f64c_skylake'', simsimd_cap_skylake_k)"
| "f64c_skylake simsimd_metric_vdot_k = Some (Some ''simsimd_vdot_f64c_skylake'', simsimd_cap_skylake_k)"
| "f64c_skylake _ = None"

fun f64c_serial :: "simsimd_metric_kind_t \<Rightarrow> resolved option" where
  "f64c_serial simsimd_metric_dot_k = Some (Some ''simsimd_dot_f64c_serial'', simsimd_cap_serial_k)"
| "f64c_serial simsimd_metric_vdot_k = Some (Some ''simsimd_vdot_f64c_serial'', simsimd_cap_serial_k)"
| "f64c_serial _ = None"

fun f16c_sve :: "simsimd_metric_kind_t \<Rightarrow> resolved option" where
  "f16c_sve simsimd_metric_dot_k = Some (Some ''simsimd_dot_f16c_sve'', simsimd_cap_sve_k)"
| "f16c_sve simsimd_metric_vdot_k = Some (Some ''simsimd_vdot_f16c_sve'', simsimd_cap_sve_k)"
| "f16c_sve _ = None"

fun f16c_neon :: "simsimd_metric_kind_t \<Rightarrow> resolved option" where
  "f16c_neon simsimd_metric_dot_k = Some (Some ''simsimd_dot_f16c_neon'', simsimd_cap_neon_k)"
| "f16c_neon simsimd_metric_vdot_k = Some (Some ''simsimd_vdot_f16c_neon'', simsimd_cap_neon_k)"
| "f16c_neon _ = None"

fun f16c_haswell :: "simsimd_metric_kind_t \<Rightarrow> resolved option" where
  "f16c_haswell simsimd_metric_dot_k = Some (Some ''simsimd_dot_f16c_haswell'', simsimd_cap_haswell_k)"
| "f16c_haswell simsimd_metric_vdot_k = Some (Some ''simsimd_vdot_f16c_haswell'', simsimd_cap_haswell_k)"
| "f16c_haswell _ = None"

fun f16c_sapphire :: "simsimd_metric_kind_t \<Rightarrow> resolved option" where
  "f16c_sapphire simsimd_metric_dot_k = Some (Some ''simsimd_dot_f16c_sapphire'', simsimd_cap_sapphire_k)"
| "f16c_sapphire simsimd_metric_vdot_k = Some (Some ''simsimd_vdot_f16c_sapphire'', simsimd_cap_sapphire_k)"
| "f16c_sapphire _ = None"

fun f16c_serial :: "simsimd_metric_kind_t \<Rightarrow> resolved option" where
  "f16c_serial simsimd_metric_dot_k = Some (Some ''simsimd_dot_f16c_serial'', simsimd_cap_serial_k)"
| "f16c_serial simsimd_metric_vdot_k = Some (Some ''simsimd_vdot_f16c_serial'', simsimd_cap_serial_k)"
| "f16c_serial _ = None"
text \<open>
  One block: compiled in when its \<^verbatim>\<open>#if\<close> holds, entered when \<^verbatim>\<open>viable & cap\<close> is
  not zero, returning when the inner switch has a case for the kind; otherwise control
  reaches the statements after it.
\<close>

definition tier ::
  "bool \<Rightarrow> simsimd_capability_t \<Rightarrow> simsimd_capability_t \<Rightarrow> resolved option \<Rightarrow> resolved \<Rightarrow> resolved" where
  "tier compiled viable cap switch rest =
    (if compiled \<and> viable AND cap \<noteq> 0
     then (case switch of Some r \<Rightarrow> r | None \<Rightarrow> rest)
     else rest)"

text \<open>
  The statements from \<^verbatim>\<open>case simsimd_datatype_f64c_k:\<close> to its \<^verbatim>\<open>break\<close> (lines
  530-556), on their own because the \<^verbatim>\<open>f32c\<close> case has no \<^verbatim>\<open>break\<close> and runs into them.
\<close>

definition case_f64c ::
  "build \<Rightarrow> simsimd_metric_kind_t \<Rightarrow> simsimd_capability_t \<Rightarrow> resolved \<Rightarrow> resolved" where
  "case_f64c cfg kind viable out =
     tier (SIMSIMD_TARGET_SVE cfg) viable simsimd_cap_sve_k (f64c_sve kind)
    (tier (SIMSIMD_TARGET_SKYLAKE cfg) viable simsimd_cap_skylake_k (f64c_skylake kind)
    (tier True viable simsimd_cap_serial_k (f64c_serial kind)
     out))"

text \<open>
  The function returns the final contents of \<^verbatim>\<open>*metric_output\<close> and
  \<^verbatim>\<open>*capability_output\<close>; both are set to zero (lines 276-277) before the switch, so
  what they held before the call does not matter.
\<close>

definition simsimd_find_metric_punned ::
  "build \<Rightarrow> simsimd_metric_kind_t \<Rightarrow> simsimd_datatype_t \<Rightarrow>
   simsimd_capability_t \<Rightarrow> simsimd_capability_t \<Rightarrow> resolved" where
  "simsimd_find_metric_punned cfg kind datatype supported allowed =
    (let viable = supported AND allowed;
         out = (None, 0)
     in case datatype of
          simsimd_datatype_unknown_k \<Rightarrow> out
        | simsimd_datatype_f64_k \<Rightarrow>
             tier (SIMSIMD_TARGET_SKYLAKE cfg) viable simsimd_cap_skylake_k (f64_skylake kind)
            (tier True viable simsimd_cap_serial_k (f64_serial kind)
             out)
        | simsimd_datatype_f32_k \<Rightarrow>
             tier (SIMSIMD_TARGET_NEON cfg) viable simsimd_cap_neon_k (f32_neon kind)
            (tier (SIMSIMD_TARGET_SKYLAKE cfg) viable simsimd_cap_skylake_k (f32_skylake kind)
            (tier True viable simsimd_cap_serial_k (f32_serial kind)
             out))
        | simsimd_datatype_f16_k \<Rightarrow>
             tier (SIMSIMD_TARGET_SVE cfg) viable simsimd_cap_sve_k (f16_sve kind)
            (tier (SIMSIMD_TARGET_NEON cfg) viable simsimd_cap_neon_k (f16_neon kind)
            (tier (SIMSIMD_TARGET_SAPPHIRE cfg) viable simsimd_cap_sapphire_k (f16_sapphire kind)
            (tier (SIMSIMD_TARGET_HASWELL cfg) viable simsimd_cap_haswell_k (f16_haswell kind)
            (tier True viable simsimd_cap_serial_k (f16_serial kind)
             out))))
        | simsimd_datatype_i8_k \<Rightarrow>
             tier (SIMSIMD_TARGET_NEON cfg) viable simsimd_cap_neon_k (i8_neon kind)
            (tier (SIMSIMD_TARGET_ICE cfg) viable simsimd_cap_ice_k (i8_ice kind)
            (tier (SIMSIMD_TARGET_HASWELL cfg) viable simsimd_cap_haswell_k (i8_haswell kind)
            (tier True viable simsimd_cap_serial_k (i8_serial kind)
             out)))
        | simsimd_datatype_b8_k \<Rightarrow>
             tier (SIMSIMD_TARGET_SVE cfg) viable simsimd_cap_sve_k (b8_sve kind)
            (tier (SIMSIMD_TARGET_NEON cfg) viable simsimd_cap_neon_k (b8_neon kind)
            (tier (SIMSIMD_TARGET_ICE cfg) viable simsimd_cap_ice_k (b8_ice kind)
            (tier (SIMSIMD_TARGET_HASWELL cfg) viable simsimd_cap_haswell_k (b8_haswell kind)
            (tier True viable simsimd_cap_serial_k (b8_serial kind)
             out))))
        | simsimd_datatype_f32c_k \<Rightarrow>
             tier (SIMSIMD_TARGET_SVE cfg) viable simsimd_cap_sve_k (f32c_sve kind)
            (tier (SIMSIMD_TARGET_NEON cfg) viable simsimd_cap_neon_k (f32c_neon kind)
            (tier (SIMSIMD_TARGET_HASWELL cfg) viable simsimd_cap_haswell_k (f32c_haswell kind)
            (tier (SIMSIMD_TARGET_SKYLAKE cfg) viable simsimd_cap_skylake_k (f32c_skylake kind)
            (tier True viable simsimd_cap_serial_k (f32c_serial kind)
            (case_f64c cfg kind viable out)))))
        | simsimd_datatype_f64c_k \<Rightarrow> case_f64c cfg kind viable out
        | simsimd_datatype_f16c_k \<Rightarrow>
             tier (SIMSIMD_TARGET_SVE cfg) viable simsimd_cap_sve_k (f16c_sve kind)
            (tier (SIMSIMD_TARGET_NEON cfg) viable simsimd_cap_neon_k (f16c_neon kind)
            (tier (SIMSIMD_TARGET_HASWELL cfg) viable simsimd_cap_haswell_k (f16c_haswell kind)
            (tier (SIMSIMD_TARGET_SAPPHIRE cfg) viable simsimd_cap_sapphire_k (f16c_sapphire kind)
            (tier True viable simsimd_cap_serial_k (f16c_serial kind)
             out))))
        | simsimd_datatype_i8c_k \<Rightarrow> out)"

section \<open>simsimd_metric_punned\<close>

text \<open>
  Lines 617-627: the locals \<^verbatim>\<open>result\<close> and \<^verbatim>\<open>c\<close> are initialised, the capabilities
  probed, the locals overwritten through the two output pointers, \<^verbatim>\<open>result\<close> returned.
\<close>

definition simsimd_metric_punned ::
  "build \<Rightarrow> machine \<Rightarrow> simsimd_metric_kind_t \<Rightarrow> simsimd_datatype_t \<Rightarrow>
   simsimd_capability_t \<Rightarrow> simsimd_metric_punned_t" where
  "simsimd_metric_punned cfg hw kind datatype allowed =
    (let result = (None :: simsimd_metric_punned_t);
         c = simsimd_cap_serial_k;
         supported = simsimd_capabilities cfg hw;
         (result, c) = simsimd_find_metric_punned cfg kind datatype supported allowed
     in result)"

section \<open>The catalog and the order of the tiers\<close>

text \<open>
  The same blocks as a table: for each \<^verbatim>\<open>case\<close> label of the datatype, the blocks that
  stand between the label and the next one, in the order of the source, each with the
  macro of its \<^verbatim>\<open>#if\<close>, the bit it tests and its inner switch. The serial blocks stand
  outside every \<^verbatim>\<open>#if\<close>. The \<^verbatim>\<open>unknown\<close> label has a bare \<^verbatim>\<open>break\<close> and \<^verbatim>\<open>i8c\<close> has
  no label at all.
\<close>

type_synonym block =
  "(build \<Rightarrow> bool) \<times> simsimd_capability_t \<times> (simsimd_metric_kind_t \<Rightarrow> resolved option)"

definition unconditional :: "build \<Rightarrow> bool" where
  "unconditional cfg = True"

fun catalog :: "simsimd_datatype_t \<Rightarrow> block list" where
  "catalog simsimd_datatype_unknown_k = []"
| "catalog simsimd_datatype_f64_k =
    [(SIMSIMD_TARGET_SKYLAKE, simsimd_cap_skylake_k, f64_skylake),
     (unconditional, simsimd_cap_serial_k, f64_serial)]"
| "catalog simsimd_datatype_f32_k =
    [(SIMSIMD_TARGET_NEON, simsimd_cap_neon_k, f32_neon),
     (SIMSIMD_TARGET_SKYLAKE, simsimd_cap_skylake_k, f32_skylake),
     (unconditional, simsimd_cap_serial_k, f32_serial)]"
| "catalog simsimd_datatype_f16_k =
    [(SIMSIMD_TARGET_SVE, simsimd_cap_sve_k, f16_sve),
     (SIMSIMD_TARGET_NEON, simsimd_cap_neon_k, f16_neon),
     (SIMSIMD_TARGET_SAPPHIRE, simsimd_cap_sapphire_k, f16_sapphire),
     (SIMSIMD_TARGET_HASWELL, simsimd_cap_haswell_k, f16_haswell),
     (unconditional, simsimd_cap_serial_k, f16_serial)]"
| "catalog simsimd_datatype_i8_k =
    [(SIMSIMD_TARGET_NEON, simsimd_cap_neon_k, i8_neon),
     (SIMSIMD_TARGET_ICE, simsimd_cap_ice_k, i8_ice),
     (SIMSIMD_TARGET_HASWELL, simsimd_cap_haswell_k, i8_haswell),
     (unconditional, simsimd_cap_serial_k, i8_serial)]"
| "catalog simsimd_datatype_b8_k =
    [(SIMSIMD_TARGET_SVE, simsimd_cap_sve_k, b8_sve),
     (SIMSIMD_TARGET_NEON, simsimd_cap_neon_k, b8_neon),
     (SIMSIMD_TARGET_ICE, simsimd_cap_ice_k, b8_ice),
     (SIMSIMD_TARGET_HASWELL, simsimd_cap_haswell_k, b8_haswell),
     (unconditional, simsimd_cap_serial_k, b8_serial)]"
| "catalog simsimd_datatype_f32c_k =
    [(SIMSIMD_TARGET_SVE, simsimd_cap_sve_k, f32c_sve),
     (SIMSIMD_TARGET_NEON, simsimd_cap_neon_k, f32c_neon),
     (SIMSIMD_TARGET_HASWELL, simsimd_cap_haswell_k, f32c_haswell),
     (SIMSIMD_TARGET_SKYLAKE, simsimd_cap_skylake_k, f32c_skylake),
     (unconditional, simsimd_cap_serial_k, f32c_serial)]"
| "catalog simsimd_datatype_f64c_k =
    [(SIMSIMD_TARGET_SVE, simsimd_cap_sve_k, f64c_sve),
     (SIMSIMD_TARGET_SKYLAKE, simsimd_cap_skylake_k, f64c_skylake),
     (unconditional, simsimd_cap_serial_k, f64c_serial)]"
| "catalog simsimd_datatype_f16c_k =
    [(SIMSIMD_TARGET_SVE, simsimd_cap_sve_k, f16c_sve),
     (SIMSIMD_TARGET_NEON, simsimd_cap_neon_k, f16c_neon),
     (SIMSIMD_TARGET_HASWELL, simsimd_cap_haswell_k, f16c_haswell),
     (SIMSIMD_TARGET_SAPPHIRE, simsimd_cap_sapphire_k, f16c_sapphire),
     (unconditional, simsimd_cap_serial_k, f16c_serial)]"
| "catalog simsimd_datatype_i8c_k = []"

text \<open>
  The blocks control reaches from a label: its own, and for \<^verbatim>\<open>f32c\<close>, whose last block
  is not followed by \<^verbatim>\<open>break\<close>, those of \<^verbatim>\<open>f64c\<close> after them.
\<close>

definition reached :: "simsimd_datatype_t \<Rightarrow> block list" where
  "reached d =
    (if d = simsimd_datatype_f32c_k
     then catalog simsimd_datatype_f32c_k @ catalog simsimd_datatype_f64c_k
     else catalog d)"

text \<open>Running a list of blocks one after the other.\<close>

fun run ::
  "build \<Rightarrow> simsimd_metric_kind_t \<Rightarrow> simsimd_capability_t \<Rightarrow> block list \<Rightarrow> resolved \<Rightarrow> resolved" where
  "run cfg kind viable [] out = out"
| "run cfg kind viable ((macro, cap, switch) # bs) out =
     tier (macro cfg) viable cap (switch kind) (run cfg kind viable bs out)"

definition all_kinds :: "simsimd_metric_kind_t list" where
  "all_kinds =
    [simsimd_metric_unknown_k, simsimd_metric_dot_k, simsimd_metric_vdot_k,
     simsimd_metric_cos_k, simsimd_metric_l2sq_k, simsimd_metric_hamming_k,
     simsimd_metric_jaccard_k, simsimd_metric_kl_k, simsimd_metric_js_k]"

text \<open>The entry points registered under a datatype: every kernel one of its switches names.\<close>

definition registered_under :: "simsimd_datatype_t \<Rightarrow> string list" where
  "registered_under d =
     List.map_filter fst
       (concat (map (\<lambda>(macro, cap, switch). List.map_filter switch all_kinds) (catalog d)))"

text \<open>Some tier registers the pair; the serial tier registers the pair.\<close>

definition registered :: "simsimd_datatype_t \<Rightarrow> simsimd_metric_kind_t \<Rightarrow> bool" where
  "registered d k = list_ex (\<lambda>(macro, cap, switch). switch k \<noteq> None) (catalog d)"

definition serial_registers :: "simsimd_datatype_t \<Rightarrow> simsimd_metric_kind_t \<Rightarrow> bool" where
  "serial_registers d k =
     list_ex (\<lambda>(macro, cap, switch). cap = simsimd_cap_serial_k \<and> switch k \<noteq> None) (catalog d)"

text \<open>
  The capability bits in the order in which the blocks reached from a label test them,
  and the position of a written capability in that order: the index of its first test,
  or the length of the list (after every tier) for the zero that is written when no
  kernel is chosen.
\<close>

definition tier_order :: "simsimd_datatype_t \<Rightarrow> simsimd_capability_t list" where
  "tier_order d = map (\<lambda>(macro, cap, switch). cap) (reached d)"

definition first_index :: "simsimd_capability_t list \<Rightarrow> simsimd_capability_t \<Rightarrow> nat" where
  "first_index cs c = length (takeWhile (\<lambda>t. t \<noteq> c) cs)"

definition tier_position :: "simsimd_datatype_t \<Rightarrow> simsimd_capability_t \<Rightarrow> nat" where
  "tier_position d c = first_index (tier_order d) c"

text \<open>
  What the blocks of the source have in common: each tests a bit that is not zero, each
  case of a block writes the bit the block tested, and a block that tests a bit again
  registers, when it is compiled, only kinds that the earlier block for that bit
  registers and is compiled for.
\<close>

fun well_formed :: "build \<Rightarrow> simsimd_metric_kind_t \<Rightarrow> block list \<Rightarrow> bool" where
  "well_formed cfg kind [] = True"
| "well_formed cfg kind ((macro, cap, switch) # bs) =
    (cap \<noteq> 0 \<and>
     (case switch kind of None \<Rightarrow> True | Some r \<Rightarrow> snd r = cap) \<and>
     list_all (\<lambda>(macro', cap', switch').
        cap' = cap \<and> macro' cfg \<and> switch' kind \<noteq> None \<longrightarrow> macro cfg \<and> switch kind \<noteq> None) bs \<and>
     well_formed cfg kind bs)"


text \<open>
  The rule of resolution in words: among the given blocks, in order, the first one that is
  compiled in, whose bit is viable and whose switch has a case for the kind decides, and
  what it writes is the result; when there is none, the result is null and zero.
\<close>

definition first_hit ::
  "build \<Rightarrow> simsimd_metric_kind_t \<Rightarrow> simsimd_capability_t \<Rightarrow> block list \<Rightarrow> resolved" where
  "first_hit cfg kind viable bs =
    (case List.find (\<lambda>(macro, cap, switch).
                       macro cfg \<and> viable AND cap \<noteq> 0 \<and> switch kind \<noteq> None) bs of
       None \<Rightarrow> (None, 0)
     | Some (macro, cap, switch) \<Rightarrow> (case switch kind of None \<Rightarrow> (None, 0) | Some r \<Rightarrow> r))"

section \<open>Builds and machines\<close>

definition arm_build :: build where
  "arm_build =
    \<lparr>SIMSIMD_TARGET_X86 = False, SIMSIMD_TARGET_ARM = True, SIMSIMD_TARGET_NEON = True,
     SIMSIMD_TARGET_SVE = True, SIMSIMD_TARGET_HASWELL = False, SIMSIMD_TARGET_SKYLAKE = False,
     SIMSIMD_TARGET_ICE = False, SIMSIMD_TARGET_SAPPHIRE = False, linux = True,
     HWCAP_SVE = push_bit 22 1, HWCAP2_SVE2 = push_bit 1 1\<rparr>"

definition x86_build :: build where
  "x86_build =
    \<lparr>SIMSIMD_TARGET_X86 = True, SIMSIMD_TARGET_ARM = False, SIMSIMD_TARGET_NEON = False,
     SIMSIMD_TARGET_SVE = False, SIMSIMD_TARGET_HASWELL = True, SIMSIMD_TARGET_SKYLAKE = True,
     SIMSIMD_TARGET_ICE = True, SIMSIMD_TARGET_SAPPHIRE = True, linux = True,
     HWCAP_SVE = push_bit 22 1, HWCAP2_SVE2 = push_bit 1 1\<rparr>"

definition portable_build :: build where
  "portable_build =
    \<lparr>SIMSIMD_TARGET_X86 = False, SIMSIMD_TARGET_ARM = False, SIMSIMD_TARGET_NEON = False,
     SIMSIMD_TARGET_SVE = False, SIMSIMD_TARGET_HASWELL = False, SIMSIMD_TARGET_SKYLAKE = False,
     SIMSIMD_TARGET_ICE = False, SIMSIMD_TARGET_SAPPHIRE = False, linux = True,
     HWCAP_SVE = push_bit 22 1, HWCAP2_SVE2 = push_bit 1 1\<rparr>"


definition no_registers :: four_registers_t where
  "no_registers = \<lparr>eax = 0, ebx = 0, ecx = 0, edx = 0\<rparr>"

definition sve_machine :: machine where
  "sve_machine =
    \<lparr>cpuid_1_0 = no_registers, cpuid_7_0 = no_registers,
     getauxval_AT_HWCAP = push_bit 22 1, getauxval_AT_HWCAP2 = 0\<rparr>"


section \<open>Unfolding and evaluation\<close>

lemmas cap_defs =
  simsimd_cap_serial_k_def simsimd_cap_any_k_def simsimd_cap_neon_k_def simsimd_cap_sve_k_def
  simsimd_cap_sve2_k_def simsimd_cap_haswell_k_def simsimd_cap_skylake_k_def
  simsimd_cap_ice_k_def simsimd_cap_sapphire_k_def

lemmas find_defs = simsimd_find_metric_punned_def case_f64c_def Let_def

text \<open>A block whose switch has no case for the kind is passed over; one that has a case returns when it is entered.\<close>

lemma tier_None: "tier compiled v cap None rest = rest"
  by (simp add: tier_def)

lemma tier_Some:
  "tier compiled v cap (Some r) rest = (if compiled \<and> v AND cap \<noteq> 0 then r else rest)"
  by (simp add: tier_def)

lemmas tier_simps = tier_None tier_Some

lemmas eval_defs = find_defs tier_simps cap_defs arm_build_def x86_build_def portable_build_def

lemma registered_under_f32c:
  "registered_under simsimd_datatype_f32c_k =
    [''simsimd_dot_f32c_sve'', ''simsimd_vdot_f32c_sve'',
     ''simsimd_dot_f32c_neon'', ''simsimd_vdot_f32c_neon'',
     ''simsimd_dot_f32c_haswell'', ''simsimd_vdot_f32c_haswell'',
     ''simsimd_dot_f32c_skylake'', ''simsimd_vdot_f32c_skylake'',
     ''simsimd_dot_f32c_serial'', ''simsimd_vdot_f32c_serial'']"
  by (simp add: registered_under_def all_kinds_def)

lemma registered_under_f64c:
  "registered_under simsimd_datatype_f64c_k =
    [''simsimd_dot_f64c_sve'', ''simsimd_vdot_f64c_sve'',
     ''simsimd_dot_f64c_skylake'', ''simsimd_vdot_f64c_skylake'',
     ''simsimd_dot_f64c_serial'', ''simsimd_vdot_f64c_serial'']"
  by (simp add: registered_under_def all_kinds_def)

text \<open>The switch of the source computes what running the blocks reached from the label computes.\<close>

lemma find_run:
  "simsimd_find_metric_punned cfg k d s a = run cfg k (s AND a) (reached d) (None, 0)"
  by (cases d) (simp_all add: find_defs reached_def unconditional_def)

lemma well_formed_reached: "well_formed cfg k (reached d)"
  by (cases d; cases k) (simp_all add: reached_def cap_defs unconditional_def)

section \<open>Running a list of blocks\<close>

text \<open>A result other than the initial one was written by a compiled block whose bit is viable.\<close>

lemma run_hit:
  "run cfg k v bs out = r \<Longrightarrow> r \<noteq> out \<Longrightarrow>
   \<exists>(macro, cap, switch) \<in> set bs. macro cfg \<and> v AND cap \<noteq> 0 \<and> switch k = Some r"
  by (induction bs arbitrary: r) (auto simp: tier_def split: if_splits option.splits)

lemma well_formed_writes:
  "well_formed cfg k bs \<Longrightarrow> (macro, cap, switch) \<in> set bs \<Longrightarrow> switch k = Some r \<Longrightarrow> snd r = cap"
  by (induction bs) auto

lemma first_index_Cons:
  "first_index (c # cs) x = (if x = c then 0 else Suc (first_index cs x))"
  by (auto simp: first_index_def)

text \<open>A mask below another one has no bit the other lacks, whatever it is intersected with.\<close>

lemma sub_viable:
  assumes h: "a1 AND a2 = a1" and n: "(s AND a1) AND c \<noteq> 0"
  shows "(s AND a2) AND c \<noteq> (0::32 word)"
proof
  assume z: "(s AND a2) AND c = 0"
  have "(s AND a1) AND c = (s AND (a1 AND a2)) AND c"
    using h by simp
  also have "\<dots> = a1 AND ((s AND a2) AND c)"
    by (simp add: ac_simps)
  finally show False using n z by simp
qed

text \<open>
  With more viable bits the first block that returns comes no later, and the bit it writes
  is first tested no later: a later test of the same bit cannot be the first to return.
\<close>

lemma run_monotone:
  assumes sub: "\<And>c. v1 AND c \<noteq> 0 \<Longrightarrow> v2 AND c \<noteq> 0"
    and wf: "well_formed cfg k bs"
  shows "first_index (map (\<lambda>(macro, cap, switch). cap) bs) (snd (run cfg k v2 bs (None, 0)))
       \<le> first_index (map (\<lambda>(macro, cap, switch). cap) bs) (snd (run cfg k v1 bs (None, 0)))"
  using wf
proof (induction bs)
  case Nil
  show ?case by simp
next
  case (Cons b bs)
  obtain macro cap switch where b: "b = (macro, cap, switch)"
    by (cases b) auto
  let ?cs = "map (\<lambda>(macro, cap, switch). cap) bs"
  let ?r1 = "run cfg k v1 bs (None, 0)"
  let ?r2 = "run cfg k v2 bs (None, 0)"
  from Cons.prems b have wf': "well_formed cfg k bs" and nz: "cap \<noteq> 0"
    and writes: "\<And>r. switch k = Some r \<Longrightarrow> snd r = cap"
    and covers: "list_all (\<lambda>(macro', cap', switch').
        cap' = cap \<and> macro' cfg \<and> switch' k \<noteq> None \<longrightarrow> macro cfg \<and> switch k \<noteq> None) bs"
    by (auto split: option.splits)
  have IH: "first_index ?cs (snd ?r2) \<le> first_index ?cs (snd ?r1)"
    using Cons.IH wf' by simp
  show ?case
  proof (cases "macro cfg \<and> v2 AND cap \<noteq> 0 \<and> switch k \<noteq> None")
    case True
    then obtain r where r: "switch k = Some r" by auto
    with True writes have "snd (run cfg k v2 (b # bs) (None, 0)) = cap"
      by (simp add: b tier_def)
    then show ?thesis by (simp add: b first_index_Cons)
  next
    case miss2: False
    with sub have miss1: "\<not> (macro cfg \<and> v1 AND cap \<noteq> 0 \<and> switch k \<noteq> None)"
      by blast
    have r2: "tier (macro cfg) v2 cap (switch k) ?r2 = ?r2"
      using miss2 by (auto simp: tier_def split: option.splits)
    have r1: "tier (macro cfg) v1 cap (switch k) ?r1 = ?r1"
      using miss1 by (auto simp: tier_def split: option.splits)
    have "snd ?r1 \<noteq> cap"
    proof
      assume eq: "snd ?r1 = cap"
      with nz have "?r1 \<noteq> (None, 0)" by auto
      from run_hit [OF refl this]
      obtain macro' cap' switch' where mem: "(macro', cap', switch') \<in> set bs"
        and hit: "macro' cfg" "v1 AND cap' \<noteq> 0" "switch' k = Some ?r1"
        by auto
      from well_formed_writes [OF wf' mem hit(3)] eq have "cap' = cap" by simp
      with covers mem hit have "macro cfg \<and> switch k \<noteq> None"
        by (auto simp: list_all_iff)
      moreover from hit(2) \<open>cap' = cap\<close> have "v1 AND cap \<noteq> 0" by simp
      ultimately show False using miss1 by simp
    qed
    with IH show ?thesis
      by (simp add: r1 r2 b first_index_Cons)
  qed
qed

section \<open>Properties of the resolver\<close>

text \<open>
  Claim C3. For a fixed kind, datatype and supported mask, when \<open>allowed1\<close> is a subset of
  \<open>allowed2\<close> as a bitmask, the capability written under \<open>allowed1\<close> stands at an equal
  or later position in the datatype's order of tiers than the one written under
  \<open>allowed2\<close>: a larger mask never downgrades the choice and a smaller one never
  upgrades it. This holds in every build.
\<close>

theorem find_metric_monotone_in_allowed:
  assumes "allowed1 AND allowed2 = allowed1"
  shows "tier_position d (snd (simsimd_find_metric_punned cfg k d s allowed2))
       \<le> tier_position d (snd (simsimd_find_metric_punned cfg k d s allowed1))"
proof -
  have "\<And>c. (s AND allowed1) AND c \<noteq> 0 \<Longrightarrow> (s AND allowed2) AND c \<noteq> 0"
    using sub_viable [OF assms] by blast
  from run_monotone [OF this well_formed_reached]
  show ?thesis
    by (simp add: find_run tier_position_def tier_order_def)
qed

text \<open>
  On an Arm build with every bit supported, \<^verbatim>\<open>kl\<close> for \<^verbatim>\<open>f16\<close> is resolved at the second
  tier of the order (NEON) when everything is allowed and at the fifth (serial) when only
  the serial bit is.
\<close>

theorem find_metric_monotone_in_allowed_witness:
  "simsimd_cap_serial_k AND simsimd_cap_any_k = simsimd_cap_serial_k \<and>
   tier_position simsimd_datatype_f16_k
     (snd (simsimd_find_metric_punned arm_build simsimd_metric_kl_k simsimd_datatype_f16_k
            simsimd_cap_any_k simsimd_cap_any_k))
   \<le> tier_position simsimd_datatype_f16_k
     (snd (simsimd_find_metric_punned arm_build simsimd_metric_kl_k simsimd_datatype_f16_k
            simsimd_cap_any_k simsimd_cap_serial_k)) \<and>
   tier_position simsimd_datatype_f16_k
     (snd (simsimd_find_metric_punned arm_build simsimd_metric_kl_k simsimd_datatype_f16_k
            simsimd_cap_any_k simsimd_cap_any_k)) = 1 \<and>
   tier_position simsimd_datatype_f16_k
     (snd (simsimd_find_metric_punned arm_build simsimd_metric_kl_k simsimd_datatype_f16_k
            simsimd_cap_any_k simsimd_cap_serial_k)) = 4"
  using find_metric_monotone_in_allowed
    [of simsimd_cap_serial_k simsimd_cap_any_k simsimd_datatype_f16_k arm_build
        simsimd_metric_kl_k simsimd_cap_any_k]
  by (simp add: eval_defs tier_position_def tier_order_def reached_def first_index_def)

text \<open>
  Claim C1. For every metric kind and all supported and allowed masks, resolving for
  datatype \<^verbatim>\<open>f32c\<close> gives either an entry point registered under \<^verbatim>\<open>f32c\<close> or the null
  entry point with capability zero; although the \<^verbatim>\<open>f32c\<close> case runs into the \<^verbatim>\<open>f64c\<close>
  case, the entry point is never one registered under \<^verbatim>\<open>f64c\<close>. This holds in every
  build.
\<close>

theorem f32c_never_resolves_f64c_kernel:
  "(fst (simsimd_find_metric_punned cfg kind simsimd_datatype_f32c_k supported allowed) = None \<and>
    snd (simsimd_find_metric_punned cfg kind simsimd_datatype_f32c_k supported allowed) = 0 \<or>
    (\<exists>f \<in> set (registered_under simsimd_datatype_f32c_k).
       fst (simsimd_find_metric_punned cfg kind simsimd_datatype_f32c_k supported allowed) = Some f)) \<and>
   (\<forall>f \<in> set (registered_under simsimd_datatype_f64c_k).
       fst (simsimd_find_metric_punned cfg kind simsimd_datatype_f32c_k supported allowed) \<noteq> Some f)"
  by (cases kind)
     (simp_all add: registered_under_f32c registered_under_f64c find_defs tier_simps)

text \<open>
  On an x86 build with only the serial bit allowed, \<^verbatim>\<open>vdot\<close> for \<^verbatim>\<open>f32c\<close> is resolved by
  the serial block of \<^verbatim>\<open>f32c\<close>, which returns before the blocks of \<^verbatim>\<open>f64c\<close> are reached.
\<close>

theorem f32c_never_resolves_f64c_kernel_witness:
  "simsimd_find_metric_punned x86_build simsimd_metric_vdot_k simsimd_datatype_f32c_k
     simsimd_cap_any_k simsimd_cap_serial_k
     = (Some ''simsimd_vdot_f32c_serial'', simsimd_cap_serial_k) \<and>
   ''simsimd_vdot_f32c_serial'' \<in> set (registered_under simsimd_datatype_f32c_k) \<and>
   ''simsimd_vdot_f32c_serial'' \<notin> set (registered_under simsimd_datatype_f64c_k) \<and>
   ''simsimd_vdot_f64c_serial'' \<in> set (registered_under simsimd_datatype_f64c_k)"
  using f32c_never_resolves_f64c_kernel
    [of x86_build simsimd_metric_vdot_k simsimd_cap_any_k simsimd_cap_serial_k]
  by (simp add: eval_defs registered_under_f32c registered_under_f64c)

text \<open>
  Claim C2, as amended. For every pair of kind and datatype that the serial tier
  registers, and for every supported mask in which the serial bit is set, resolving with
  only the serial bit allowed gives a non-null entry point, with the serial capability.
  This holds in every build.
\<close>

theorem serial_only_allowed_resolves:
  "serial_registers d kind \<Longrightarrow> supported AND simsimd_cap_serial_k \<noteq> 0 \<Longrightarrow>
   fst (simsimd_find_metric_punned cfg kind d supported simsimd_cap_serial_k) \<noteq> None \<and>
   snd (simsimd_find_metric_punned cfg kind d supported simsimd_cap_serial_k) = simsimd_cap_serial_k"
  by (cases d; cases kind)
     (simp_all add: find_defs tier_simps serial_registers_def cap_defs and.assoc)

theorem serial_only_allowed_resolves_witness:
  "serial_registers simsimd_datatype_b8_k simsimd_metric_jaccard_k \<and>
   simsimd_cap_any_k AND simsimd_cap_serial_k \<noteq> 0 \<and>
   fst (simsimd_find_metric_punned x86_build simsimd_metric_jaccard_k simsimd_datatype_b8_k
         simsimd_cap_any_k simsimd_cap_serial_k) \<noteq> None \<and>
   snd (simsimd_find_metric_punned x86_build simsimd_metric_jaccard_k simsimd_datatype_b8_k
         simsimd_cap_any_k simsimd_cap_serial_k) = simsimd_cap_serial_k"
  using serial_only_allowed_resolves
    [of simsimd_datatype_b8_k simsimd_metric_jaccard_k simsimd_cap_any_k x86_build]
  by (simp add: serial_registers_def cap_defs)

text \<open>
  Without the restriction on the supported mask the statement fails: the serial tier
  registers \<^verbatim>\<open>dot\<close> for \<^verbatim>\<open>f64\<close>, but with a supported mask that holds the Skylake bit
  alone and only the serial bit allowed, no bit is viable and the result is null.
\<close>

theorem serial_only_allowed_counterexample:
  "serial_registers simsimd_datatype_f64_k simsimd_metric_dot_k \<and>
   simsimd_find_metric_punned x86_build simsimd_metric_dot_k simsimd_datatype_f64_k
     simsimd_cap_skylake_k simsimd_cap_serial_k = (None, 0)"
  by (simp add: serial_registers_def eval_defs)



text \<open>
  Claim C5. For a pair of kind and datatype that no block of the catalog registers, such
  as \<^verbatim>\<open>jaccard\<close> with \<^verbatim>\<open>f32\<close>, resolution writes the null entry point and capability
  zero, whatever the supported and allowed masks and the build. The function has no other
  way to signal: it is total and its two outputs are all it produces.
\<close>

theorem unregistered_pair_resolves_to_null:
  "\<not> registered d kind \<Longrightarrow>
   simsimd_find_metric_punned cfg kind d supported allowed = (None, 0)"
  by (cases d; cases kind) (simp_all add: find_defs tier_simps registered_def)

theorem unregistered_pair_resolves_to_null_witness:
  "\<not> registered simsimd_datatype_f32_k simsimd_metric_jaccard_k \<and>
   simsimd_find_metric_punned arm_build simsimd_metric_jaccard_k simsimd_datatype_f32_k
     simsimd_cap_any_k simsimd_cap_any_k = (None, 0)"
  using unregistered_pair_resolves_to_null
    [of simsimd_datatype_f32_k simsimd_metric_jaccard_k arm_build simsimd_cap_any_k
        simsimd_cap_any_k]
  by (simp add: registered_def)

text \<open>The blocks run one after the other compute the first hit.\<close>

lemma run_first_hit: "run cfg k v bs (None, 0) = first_hit cfg k v bs"
proof (induction bs)
  case Nil
  show ?case by (simp add: first_hit_def)
next
  case (Cons b bs)
  obtain macro cap switch where b: "b = (macro, cap, switch)"
    by (cases b) auto
  show ?case
  proof (cases "macro cfg \<and> v AND cap \<noteq> 0 \<and> switch k \<noteq> None")
    case True
    then show ?thesis
      by (auto simp: b first_hit_def tier_def)
  next
    case False
    then have "run cfg k v (b # bs) (None, 0) = run cfg k v bs (None, 0)"
      by (auto simp: b tier_def split: option.splits)
    moreover from False have "first_hit cfg k v (b # bs) = first_hit cfg k v bs"
      by (auto simp: b first_hit_def)
    ultimately show ?thesis using Cons.IH by simp
  qed
qed

text \<open>
  Claim C6, as amended. In every build and for every kind, datatype and masks, the result
  is what the first block decides that is compiled in, has its bit in
  \<^verbatim>\<open>supported & allowed\<close> and has a case for the kind, among the blocks reached from the
  datatype's label in the order of the source; a viable block of higher priority without
  a case for the kind is passed over and does not stop the search. The SVE block of
  \<^verbatim>\<open>f16\<close> has no case for \<^verbatim>\<open>js\<close>; so in a build that compiles the NEON blocks,
  resolving \<^verbatim>\<open>js\<close> for \<^verbatim>\<open>f16\<close> with the NEON bit in \<^verbatim>\<open>supported & allowed\<close> gives the
  NEON \<^verbatim>\<open>js\<close> kernel with capability NEON, when the SVE bit is there too as much as when
  it is not.
\<close>

theorem viable_tier_without_kind_does_not_block:
  "simsimd_find_metric_punned cfg kind d supported allowed =
     first_hit cfg kind (supported AND allowed) (reached d) \<and>
   f16_sve simsimd_metric_js_k = None \<and>
   (SIMSIMD_TARGET_NEON cfg \<and> (supported AND allowed) AND simsimd_cap_neon_k \<noteq> 0 \<longrightarrow>
      simsimd_find_metric_punned cfg simsimd_metric_js_k simsimd_datatype_f16_k supported allowed
        = (Some ''simsimd_js_f16_neon'', simsimd_cap_neon_k))"
  by (simp add: find_run run_first_hit)
     (simp add: find_run [symmetric] run_first_hit [symmetric] find_defs tier_simps)

text \<open>
  On the Arm build, which compiles the SVE and the NEON blocks, with every bit supported
  and allowed: \<^verbatim>\<open>js\<close> for \<^verbatim>\<open>f16\<close> goes past the SVE block to the NEON kernel, while
  \<^verbatim>\<open>dot\<close>, which the SVE block has, is resolved there.
\<close>

theorem viable_tier_without_kind_does_not_block_witness:
  "SIMSIMD_TARGET_NEON arm_build \<and> SIMSIMD_TARGET_SVE arm_build \<and>
   (simsimd_cap_any_k AND simsimd_cap_any_k) AND simsimd_cap_sve_k \<noteq> 0 \<and>
   (simsimd_cap_any_k AND simsimd_cap_any_k) AND simsimd_cap_neon_k \<noteq> 0 \<and>
   simsimd_find_metric_punned arm_build simsimd_metric_js_k simsimd_datatype_f16_k
     simsimd_cap_any_k simsimd_cap_any_k = (Some ''simsimd_js_f16_neon'', simsimd_cap_neon_k) \<and>
   first_hit arm_build simsimd_metric_js_k (simsimd_cap_any_k AND simsimd_cap_any_k)
     (reached simsimd_datatype_f16_k) = (Some ''simsimd_js_f16_neon'', simsimd_cap_neon_k) \<and>
   simsimd_find_metric_punned arm_build simsimd_metric_dot_k simsimd_datatype_f16_k
     simsimd_cap_any_k simsimd_cap_any_k = (Some ''simsimd_dot_f16_sve'', simsimd_cap_sve_k)"
  using viable_tier_without_kind_does_not_block
    [of arm_build simsimd_metric_js_k simsimd_datatype_f16_k simsimd_cap_any_k simsimd_cap_any_k]
  by (simp add: eval_defs)

text \<open>
  The example as first worded names no build, and fails on one without the NEON blocks:
  on the x86 build, with the SVE and the NEON bit both in \<^verbatim>\<open>supported & allowed\<close>,
  \<^verbatim>\<open>js\<close> for \<^verbatim>\<open>f16\<close> is resolved by the Sapphire block.
\<close>

theorem f16_js_neon_counterexample:
  "(simsimd_cap_any_k AND simsimd_cap_any_k) AND simsimd_cap_sve_k \<noteq> 0 \<and>
   (simsimd_cap_any_k AND simsimd_cap_any_k) AND simsimd_cap_neon_k \<noteq> 0 \<and>
   simsimd_find_metric_punned x86_build simsimd_metric_js_k simsimd_datatype_f16_k
     simsimd_cap_any_k simsimd_cap_any_k
     = (Some ''simsimd_js_f16_sapphire'', simsimd_cap_sapphire_k)"
  by (simp add: eval_defs)

section \<open>Properties of the probe\<close>










section \<open>The convenience form and the rest of the catalog\<close>

text \<open>
  Claim C8. For every kind, datatype and allowed mask, \<^verbatim>\<open>simsimd_metric_punned\<close> returns
  exactly the entry point that \<^verbatim>\<open>simsimd_find_metric_punned\<close> writes to its metric output
  when the supported mask is the result of \<^verbatim>\<open>simsimd_capabilities\<close>.
\<close>

theorem metric_punned_is_find_with_probe:
  "simsimd_metric_punned cfg hw kind d allowed =
   fst (simsimd_find_metric_punned cfg kind d (simsimd_capabilities cfg hw) allowed)"
  by (simp add: simsimd_metric_punned_def split: prod.splits)

theorem metric_punned_is_find_with_probe_witness:
  "simsimd_metric_punned arm_build sve_machine simsimd_metric_js_k simsimd_datatype_f16_k
     simsimd_cap_any_k = Some ''simsimd_js_f16_neon'' \<and>
   fst (simsimd_find_metric_punned arm_build simsimd_metric_js_k simsimd_datatype_f16_k
     (simsimd_capabilities arm_build sve_machine) simsimd_cap_any_k) = Some ''simsimd_js_f16_neon''"
  using metric_punned_is_find_with_probe
    [of arm_build sve_machine simsimd_metric_js_k simsimd_datatype_f16_k simsimd_cap_any_k]
  by (simp add: simsimd_capabilities_def capabilities_arm_def sve_machine_def eval_defs)

text \<open>
  Claim C9. For datatype \<^verbatim>\<open>i8\<close>, resolving the \<^verbatim>\<open>dot\<close> kind gives the same result as
  resolving the \<^verbatim>\<open>cos\<close> kind under the same masks, in every build: each of the four
  blocks registers its cosine kernel under \<^verbatim>\<open>dot\<close>, so no separate inner-product kernel
  is ever returned.
\<close>

theorem i8_dot_resolves_as_cos:
  "simsimd_find_metric_punned cfg simsimd_metric_dot_k simsimd_datatype_i8_k supported allowed =
   simsimd_find_metric_punned cfg simsimd_metric_cos_k simsimd_datatype_i8_k supported allowed \<and>
   i8_neon simsimd_metric_dot_k = Some (Some ''simsimd_cos_i8_neon'', simsimd_cap_neon_k) \<and>
   i8_ice simsimd_metric_dot_k = Some (Some ''simsimd_cos_i8_ice'', simsimd_cap_ice_k) \<and>
   i8_haswell simsimd_metric_dot_k = Some (Some ''simsimd_cos_i8_haswell'', simsimd_cap_haswell_k) \<and>
   i8_serial simsimd_metric_dot_k = Some (Some ''simsimd_cos_i8_serial'', simsimd_cap_serial_k)"
  by (simp add: find_defs tier_simps)

theorem i8_dot_resolves_as_cos_witness:
  "simsimd_find_metric_punned x86_build simsimd_metric_dot_k simsimd_datatype_i8_k
     simsimd_cap_any_k simsimd_cap_any_k = (Some ''simsimd_cos_i8_ice'', simsimd_cap_ice_k) \<and>
   simsimd_find_metric_punned x86_build simsimd_metric_cos_k simsimd_datatype_i8_k
     simsimd_cap_any_k simsimd_cap_any_k = (Some ''simsimd_cos_i8_ice'', simsimd_cap_ice_k)"
  using i8_dot_resolves_as_cos [of x86_build simsimd_cap_any_k simsimd_cap_any_k]
  by (simp add: eval_defs)

text \<open>
  Claim C10. For the datatypes \<^verbatim>\<open>i8c\<close> and \<^verbatim>\<open>unknown\<close>, resolution writes the null entry
  point and capability zero for every kind and all masks, in every build: the catalog
  has no block for either, although \<^verbatim>\<open>i8c\<close> is a value of the public enumeration.
\<close>

theorem i8c_and_unknown_resolve_to_null:
  "simsimd_find_metric_punned cfg kind simsimd_datatype_i8c_k supported allowed = (None, 0) \<and>
   simsimd_find_metric_punned cfg kind simsimd_datatype_unknown_k supported allowed = (None, 0) \<and>
   catalog simsimd_datatype_i8c_k = [] \<and> catalog simsimd_datatype_unknown_k = []"
  by (simp add: find_defs)

theorem i8c_and_unknown_resolve_to_null_witness:
  "simsimd_find_metric_punned x86_build simsimd_metric_dot_k simsimd_datatype_i8c_k
     simsimd_cap_any_k simsimd_cap_any_k = (None, 0) \<and>
   simsimd_find_metric_punned x86_build simsimd_metric_dot_k simsimd_datatype_unknown_k
     simsimd_cap_any_k simsimd_cap_any_k = (None, 0)"
  using i8c_and_unknown_resolve_to_null
    [of x86_build simsimd_metric_dot_k simsimd_cap_any_k simsimd_cap_any_k]
  by simp

end
